theory Spec2Isabelle
  imports Main "HOL-Library.AList"
begin

section \<open>Python strings and built-ins used by the scripts\<close>

text \<open>
  A Python \<open>str\<close> is modelled as a \<open>string\<close> (a list of characters); the characters of
  this model are the code points below 256. Exceptions are values of \<open>py_error\<close>.
\<close>

datatype py_error = ValueError | IndexError

definition CRLF :: string where
  "CRLF = [CHR 0x0D, CHR 0x0A]"

text \<open>
  \<open>s.split(sep, maxsplit)\<close> for a non-empty separator: the string is scanned from the
  left, every non-overlapping occurrence of \<open>sep\<close> ends the current piece, and after
  \<open>maxsplit\<close> cuts the rest is one piece. A negative \<open>maxsplit\<close> (Python's default -1)
  never reaches 0, so it does not limit the cuts. \<open>skip\<close> counts the characters of a
  separator that was just matched and is still to be passed over.
\<close>

fun py_split_aux :: "string \<Rightarrow> int \<Rightarrow> nat \<Rightarrow> string \<Rightarrow> string \<Rightarrow> string list" where
  "py_split_aux sep maxsplit skip cur [] = [cur]"
| "py_split_aux sep maxsplit skip cur (c # cs) =
     (if 0 < skip then py_split_aux sep maxsplit (skip - 1) cur cs
      else if maxsplit \<noteq> 0 \<and> take (length sep) (c # cs) = sep
        then cur # py_split_aux sep (maxsplit - 1) (length sep - 1) [] cs
      else py_split_aux sep maxsplit 0 (cur @ [c]) cs)"

definition py_split :: "string \<Rightarrow> int \<Rightarrow> string \<Rightarrow> string list" where
  "py_split sep maxsplit s = py_split_aux sep maxsplit 0 [] s"

text \<open>\<open>sep.join(xs)\<close>.\<close>

fun py_join :: "string \<Rightarrow> string list \<Rightarrow> string" where
  "py_join sep [] = []"
| "py_join sep [x] = x"
| "py_join sep (x # y # ys) = x @ sep @ py_join sep (y # ys)"

text \<open>
  \<open>c.isspace()\<close> on the code points below 256: TAB, LF, VT, FF, CR, the separators
  0x1C to 0x1F, the space, NEL (0x85) and the no-break space (0xA0).
\<close>

definition py_isspace :: "char \<Rightarrow> bool" where
  "py_isspace c = (let n = (of_char c :: nat) in
     (9 \<le> n \<and> n \<le> 13) \<or> (28 \<le> n \<and> n \<le> 32) \<or> n = 133 \<or> n = 160)"

definition py_strip :: "string \<Rightarrow> string" where
  "py_strip s = rev (dropWhile py_isspace (rev (dropWhile py_isspace s)))"

definition is_digit :: "char \<Rightarrow> bool" where
  "is_digit c = (let n = (of_char c :: nat) in 48 \<le> n \<and> n \<le> 57)"

definition digit_val :: "char \<Rightarrow> nat" where
  "digit_val c = of_char c - 48"

text \<open>
  \<open>int(s)\<close> on a string, base 10: surrounding whitespace is dropped, one sign is
  allowed, then decimal digits, where single underscores may stand between two digits.
  Anything else raises \<open>ValueError\<close>. The whitespace that \<open>int\<close> drops is narrower than
  that of \<open>strip\<close>: TAB, LF, VT, FF, CR and the space, and beyond ASCII NEL (0x85) and the
  no-break space (0xA0), but not the separators 0x1C to 0x1F, on which \<open>int\<close> raises.
  A literal with more than 4300 digits (underscores not counted, leading zeros counted)
  raises \<open>ValueError\<close> as well: the default of \<open>sys.set_int_max_str_digits\<close>. (Python
  also accepts the decimal digits of other scripts; they lie beyond the code points of
  this model.)
\<close>

definition py_int_isspace :: "char \<Rightarrow> bool" where
  "py_int_isspace c = (let n = (of_char c :: nat) in
     (9 \<le> n \<and> n \<le> 13) \<or> n = 32 \<or> n = 133 \<or> n = 160)"

definition py_int_strip :: "string \<Rightarrow> string" where
  "py_int_strip s = rev (dropWhile py_int_isspace (rev (dropWhile py_int_isspace s)))"

definition int_max_str_digits :: nat where
  "int_max_str_digits = 4300"

fun py_int_digits :: "nat \<Rightarrow> string \<Rightarrow> nat option" where
  "py_int_digits acc [] = Some acc"
| "py_int_digits acc (c # cs) =
     (if is_digit c then py_int_digits (acc * 10 + digit_val c) cs
      else if c = CHR ''_'' \<and> cs \<noteq> [] \<and> is_digit (hd cs) then py_int_digits acc cs
      else None)"

definition py_int_unsigned :: "string \<Rightarrow> nat option" where
  "py_int_unsigned ds = (case ds of [] \<Rightarrow> None
     | c # cs \<Rightarrow>
         if is_digit c then
           (case py_int_digits 0 (c # cs) of
              None \<Rightarrow> None
            | Some n \<Rightarrow> if int_max_str_digits < length (filter is_digit ds) then None else Some n)
         else None)"

definition py_int :: "string \<Rightarrow> py_error + int" where
  "py_int s = (case py_int_strip s of
       [] \<Rightarrow> Inl ValueError
     | c # cs \<Rightarrow>
         if c = CHR ''-'' then
           (case py_int_unsigned cs of None \<Rightarrow> Inl ValueError | Some n \<Rightarrow> Inr (- int n))
         else if c = CHR ''+'' then
           (case py_int_unsigned cs of None \<Rightarrow> Inl ValueError | Some n \<Rightarrow> Inr (int n))
         else
           (case py_int_unsigned (c # cs) of None \<Rightarrow> Inl ValueError | Some n \<Rightarrow> Inr (int n)))"

text \<open>\<open>str(n)\<close> for a length, as the f-string \<open>f"{len(body)}"\<close> prints it.\<close>

fun py_str_nat :: "nat \<Rightarrow> string" where
  "py_str_nat n = (if n < 10 then [char_of (48 + n)]
     else py_str_nat (n div 10) @ [char_of (48 + n mod 10)])"

declare py_str_nat.simps [simp del]

section \<open>http\_demo.py: the raw HTTP client\<close>

subsection \<open>\<open>parse_http_response\<close>\<close>

text \<open>
  The dictionary that \<open>parse_http_response\<close> returns. \<open>headers\<close> is a Python dict with
  string keys: an association list in insertion order, written with \<open>AList.update\<close>
  (a key that is already present keeps its place and takes the new value).
\<close>

record http_response =
  protocol :: string
  status_code :: int
  status_message :: string
  headers :: "(string \<times> string) list"
  body :: string

text \<open>
  The loop \<open>for i, line in enumerate(lines[1:], 1)\<close>: it returns the headers collected and
  \<open>body_start\<close>, which is \<open>i + 1\<close> at the first empty line and keeps its initial value 0
  when the loop ends without \<open>break\<close>. A line without a colon is skipped.
  \<open>key, value = line.split(':', 1)\<close> unpacks exactly two pieces.
\<close>

fun parse_headers ::
  "nat \<Rightarrow> string list \<Rightarrow> (string \<times> string) list \<Rightarrow> py_error + ((string \<times> string) list \<times> nat)" where
  "parse_headers i [] hs = Inr (hs, 0)"
| "parse_headers i (line # rest) hs =
     (if line = [] then Inr (hs, i + 1)
      else if CHR '':'' \<in> set line then
        (case py_split '':'' 1 line of
           [key, val] \<Rightarrow> parse_headers (i + 1) rest (AList.update (py_strip key) (py_strip val) hs)
         | _ \<Rightarrow> Inl ValueError)
      else parse_headers (i + 1) rest hs)"

text \<open>
  \<open>lines[0]\<close> raises \<open>IndexError\<close> on an empty list (\<open>split\<close> never returns one).
  \<open>protocol, status_code, status_message = status_line.split(' ', 2)\<close> raises
  \<open>ValueError\<close> unless there are three pieces, and so does \<open>int(status_code)\<close> on a
  string that is no integer literal (it is evaluated last, when the result is built).
\<close>

definition parse_http_response :: "string \<Rightarrow> py_error + http_response" where
  "parse_http_response response =
     (let lines = py_split CRLF (- 1) response
      in case lines of
           [] \<Rightarrow> Inl IndexError
         | status_line # rest \<Rightarrow>
             (case py_split '' '' 2 status_line of
                [proto, code, msg] \<Rightarrow>
                  (case parse_headers 1 rest [] of
                     Inl e \<Rightarrow> Inl e
                   | Inr (hs, body_start) \<Rightarrow>
                       (case py_int code of
                          Inl e \<Rightarrow> Inl e
                        | Inr n \<Rightarrow> Inr \<lparr> protocol = proto, status_code = n, status_message = msg,
                                        headers = hs, body = py_join CRLF (drop body_start lines) \<rparr>))
              | _ \<Rightarrow> Inl ValueError))"

subsection \<open>\<open>make_http_request\<close>: the request that is sent\<close>

text \<open>
  The part of \<open>make_http_request\<close> between \<open># Build HTTP request\<close> and \<open>sock.sendall\<close>.
  \<open>host\<close> and \<open>path\<close> are what \<open>urlparse\<close> (a library function) gave for the url, the
  path already replaced by \<open>/\<close> when it is empty (\<open>request_path\<close>). \<open>headers\<close> is the
  caller's dict in insertion order, or \<open>None\<close>; \<open>body\<close> is the optional body. Both
  \<open>if headers:\<close> and \<open>if body:\<close> test truthiness, so an empty dict and an empty string
  count as absent.
\<close>

definition request_path :: "string \<Rightarrow> string" where
  "request_path p = (if p = [] then ''/'' else p)"

definition header_lines :: "(string \<times> string) list option \<Rightarrow> string list" where
  "header_lines hdrs = (case hdrs of None \<Rightarrow> []
     | Some hs \<Rightarrow> map (\<lambda>(key, val). key @ '': '' @ val) hs)"

definition request_lines :: "string \<Rightarrow> string \<Rightarrow> string \<Rightarrow> (string \<times> string) list option \<Rightarrow> string option \<Rightarrow> string list" where
  "request_lines method host path hdrs bdy =
     [method @ '' '' @ request_path path @ '' HTTP/1.1'', ''Host: '' @ host, ''Connection: close'']
     @ header_lines hdrs
     @ (case bdy of
          None \<Rightarrow> [[]]
        | Some b \<Rightarrow> if b = [] then [[]]
                    else [''Content-Length: '' @ py_str_nat (length b), [], b])"

definition build_request :: "string \<Rightarrow> string \<Rightarrow> string \<Rightarrow> (string \<times> string) list option \<Rightarrow> string option \<Rightarrow> string" where
  "build_request method host path hdrs bdy = py_join CRLF (request_lines method host path hdrs bdy)"

text \<open>\<open>s.endswith(t)\<close>, used to state how the request ends.\<close>

definition ends_with :: "string \<Rightarrow> string \<Rightarrow> bool" where
  "ends_with s t = (length t \<le> length s \<and> drop (length s - length t) s = t)"

section \<open>Python lists\<close>

text \<open>
  \<open>xs[a:b]\<close>: a negative bound counts from the end, and both bounds are clipped to the
  list.
\<close>

definition py_slice :: "'a list \<Rightarrow> int \<Rightarrow> int \<Rightarrow> 'a list" where
  "py_slice xs a b =
     (let n = int (length xs);
          lo = (if a < 0 then max 0 (a + n) else min a n);
          hi = (if b < 0 then max 0 (b + n) else min b n)
      in take (nat (hi - lo)) (drop (nat lo) xs))"

text \<open>
  \<open>xs.remove(x)\<close> deletes the first item that compares equal to \<open>x\<close> under the
  equality \<open>eq\<close> of the items, and raises \<open>ValueError\<close> (here \<open>None\<close>) when there is none.
\<close>

fun py_remove :: "('a \<Rightarrow> 'a \<Rightarrow> bool) \<Rightarrow> 'a \<Rightarrow> 'a list \<Rightarrow> 'a list option" where
  "py_remove eq x [] = None"
| "py_remove eq x (y # ys) =
     (if eq y x then Some ys else map_option ((#) y) (py_remove eq x ys))"

text \<open>
  \<open>s.lower()\<close> on the code points below 256 (the letters A to Z and the upper-case
  letters of Latin-1), and \<open>sub in s\<close> on strings.
\<close>

definition py_lower_char :: "char \<Rightarrow> char" where
  "py_lower_char c = (let n = (of_char c :: nat) in
     if (65 \<le> n \<and> n \<le> 90) \<or> (192 \<le> n \<and> n \<le> 222 \<and> n \<noteq> 215) then char_of (n + 32) else c)"

definition py_lower :: "string \<Rightarrow> string" where
  "py_lower s = map py_lower_char s"

fun py_contains :: "string \<Rightarrow> string \<Rightarrow> bool" where
  "py_contains sub [] = (sub = [])"
| "py_contains sub (c # cs) = (take (length sub) (c # cs) = sub \<or> py_contains sub cs)"

section \<open>fastapi/basic\_app.py\<close>

text \<open>
  The pydantic models \<open>UserCreate\<close> and \<open>PostCreate\<close> are the handlers' arguments: the
  framework builds them from the request body before the handler runs, and a body that
  fails their field constraints never reaches it. The stored records are the dicts
  \<open>new_user\<close> and \<open>new_post\<close>; \<open>created_at\<close> holds \<open>datetime.now()\<close>, which the model
  takes as an argument \<open>now\<close>.
\<close>

record UserCreate =
  uc_name :: string
  uc_email :: string
  uc_age :: int

record PostCreate =
  pc_title :: string
  pc_content :: string
  pc_user_id :: int

record fa_user =
  fa_user_id :: int
  fa_user_name :: string
  fa_user_email :: string
  fa_user_age :: int
  fa_user_created_at :: nat

record fa_post =
  fa_post_id :: int
  fa_post_title :: string
  fa_post_content :: string
  fa_post_user_id :: int
  fa_post_author :: string
  fa_post_created_at :: nat

text \<open>The module's two global lists \<open>users\<close> and \<open>posts\<close>.\<close>

record fa_state =
  fa_users :: "fa_user list"
  fa_posts :: "fa_post list"

definition fa_init :: fa_state where
  "fa_init = \<lparr> fa_users = [], fa_posts = [] \<rparr>"

text \<open>
  A handler either raises \<open>HTTPException(status_code, detail)\<close> or returns a value, which
  the framework sends with the status code of the route's decorator (200 when none is
  given). A query parameter outside the bounds of its \<open>Query(...)\<close> declaration is
  rejected by the framework with status 422 before the handler runs.
\<close>

datatype http_exception = HTTPException nat string | RequestValidationError

fun exc_status :: "http_exception \<Rightarrow> nat" where
  "exc_status (HTTPException code detail) = code"
| "exc_status RequestValidationError = 422"

fun fa_status :: "nat \<Rightarrow> http_exception + 'a \<Rightarrow> nat" where
  "fa_status route_code (Inl e) = exc_status e"
| "fa_status route_code (Inr v) = route_code"

definition get_user_by_id :: "fa_state \<Rightarrow> int \<Rightarrow> http_exception + fa_user" where
  "get_user_by_id st user_id =
     (case find (\<lambda>u. fa_user_id u = user_id) (fa_users st) of
        None \<Rightarrow> Inl (HTTPException 404 ''User not found'')
      | Some user \<Rightarrow> Inr user)"

definition fastapi_get_users ::
  "fa_state \<Rightarrow> int \<Rightarrow> int \<Rightarrow> string option \<Rightarrow> http_exception + fa_user list" where
  "fastapi_get_users st skip limit search =
     (if skip < 0 \<or> limit < 1 \<or> 100 < limit then Inl RequestValidationError
      else
        let filtered_users =
              (case search of
                 None \<Rightarrow> fa_users st
               | Some s \<Rightarrow>
                   if s = [] then fa_users st
                   else filter (\<lambda>u. py_contains (py_lower s) (py_lower (fa_user_name u))) (fa_users st))
        in Inr (py_slice filtered_users skip (skip + limit)))"

definition fastapi_get_user :: "fa_state \<Rightarrow> int \<Rightarrow> http_exception + fa_user" where
  "fastapi_get_user st user_id =
     (case find (\<lambda>u. fa_user_id u = user_id) (fa_users st) of
        None \<Rightarrow> Inl (HTTPException 404 ''User not found'')
      | Some user \<Rightarrow> Inr user)"

definition fastapi_create_user ::
  "fa_state \<Rightarrow> nat \<Rightarrow> UserCreate \<Rightarrow> (http_exception + fa_user) \<times> fa_state" where
  "fastapi_create_user st now user =
     (if list_ex (\<lambda>u. fa_user_email u = uc_email user) (fa_users st)
      then (Inl (HTTPException 409 ''Email already exists''), st)
      else
        let new_user = \<lparr> fa_user_id = int (length (fa_users st)) + 1,
                         fa_user_name = uc_name user,
                         fa_user_email = uc_email user,
                         fa_user_age = uc_age user,
                         fa_user_created_at = now \<rparr>
        in (Inr new_user, st\<lparr> fa_users := fa_users st @ [new_user] \<rparr>))"

text \<open>
  \<open>users.remove(user)\<close> compares dicts with \<open>==\<close>, which on these records is equality
  of all fields. The \<open>ValueError\<close> of \<open>remove\<close> would surface as status 500.
\<close>

definition fastapi_delete_user :: "fa_state \<Rightarrow> int \<Rightarrow> (http_exception + unit) \<times> fa_state" where
  "fastapi_delete_user st user_id =
     (case find (\<lambda>u. fa_user_id u = user_id) (fa_users st) of
        None \<Rightarrow> (Inl (HTTPException 404 ''User not found''), st)
      | Some user \<Rightarrow>
          (case py_remove (=) user (fa_users st) of
             None \<Rightarrow> (Inl (HTTPException 500 ''Internal Server Error''), st)
           | Some users' \<Rightarrow> (Inr (), st\<lparr> fa_users := users' \<rparr>)))"

text \<open>\<open>if user_id:\<close> is false for \<open>None\<close> and for 0.\<close>

definition fastapi_get_posts ::
  "fa_state \<Rightarrow> int option \<Rightarrow> int \<Rightarrow> int \<Rightarrow> http_exception + fa_post list" where
  "fastapi_get_posts st user_id skip limit =
     (if skip < 0 \<or> limit < 1 \<or> 100 < limit then Inl RequestValidationError
      else
        let filtered_posts =
              (case user_id of
                 None \<Rightarrow> fa_posts st
               | Some uid \<Rightarrow>
                   if uid = 0 then fa_posts st
                   else filter (\<lambda>p. fa_post_user_id p = uid) (fa_posts st))
        in Inr (py_slice filtered_posts skip (skip + limit)))"

definition fastapi_get_post :: "fa_state \<Rightarrow> int \<Rightarrow> http_exception + fa_post" where
  "fastapi_get_post st post_id =
     (case find (\<lambda>p. fa_post_id p = post_id) (fa_posts st) of
        None \<Rightarrow> Inl (HTTPException 404 ''Post not found'')
      | Some post \<Rightarrow> Inr post)"

text \<open>
  \<open>create_post(post: PostCreate, user: dict = Depends(get_user_by_id))\<close>: the framework
  calls the dependency \<open>get_user_by_id(user_id: int)\<close> with the request's own \<open>user_id\<close>
  parameter and passes its result as \<open>user\<close>; an exception of the dependency is the
  response and the handler does not run. Nothing in the source hands \<open>post.user_id\<close> to
  the dependency, so the model takes the dependency's \<open>user_id\<close> as an argument of its
  own, next to the body \<open>post\<close>.
\<close>

definition fastapi_create_post ::
  "fa_state \<Rightarrow> nat \<Rightarrow> int \<Rightarrow> PostCreate \<Rightarrow> (http_exception + fa_post) \<times> fa_state" where
  "fastapi_create_post st now user_id post =
     (case get_user_by_id st user_id of
        Inl e \<Rightarrow> (Inl e, st)
      | Inr user \<Rightarrow>
          let new_post = \<lparr> fa_post_id = int (length (fa_posts st)) + 1,
                           fa_post_title = pc_title post,
                           fa_post_content = pc_content post,
                           fa_post_user_id = pc_user_id post,
                           fa_post_author = fa_user_name user,
                           fa_post_created_at = now \<rparr>
          in (Inr new_post, st\<lparr> fa_posts := fa_posts st @ [new_post] \<rparr>))"

definition fastapi_delete_post :: "fa_state \<Rightarrow> int \<Rightarrow> (http_exception + unit) \<times> fa_state" where
  "fastapi_delete_post st post_id =
     (case find (\<lambda>p. fa_post_id p = post_id) (fa_posts st) of
        None \<Rightarrow> (Inl (HTTPException 404 ''Post not found''), st)
      | Some post \<Rightarrow>
          (case py_remove (=) post (fa_posts st) of
             None \<Rightarrow> (Inl (HTTPException 500 ''Internal Server Error''), st)
           | Some posts' \<Rightarrow> (Inr (), st\<lparr> fa_posts := posts' \<rparr>)))"

section \<open>flask/basic\_app.py\<close>

text \<open>
  The Flask handlers read \<open>request.json\<close>, which is whatever JSON the client sent, and
  check it field by field. The model keeps the JSON scalars as \<open>jval\<close> (numbers are
  integers; floating-point numbers and nested values are not modelled), a JSON object as
  an association list read with \<open>map_of\<close> (\<open>data.get(key)\<close>), and the body as
  \<open>request_json\<close>. \<open>py_truthy\<close> is Python's truth value and \<open>json_eq\<close> is Python's
  \<open>==\<close> on these values, where \<open>True == 1\<close> and \<open>False == 0\<close>.
\<close>

datatype jval = JNull | JBool bool | JInt int | JStr string

datatype request_json =
    JsonObject "(string \<times> jval) list"
  | JsonArray "jval list"
  | JsonScalar jval

fun py_truthy :: "jval \<Rightarrow> bool" where
  "py_truthy JNull = False"
| "py_truthy (JBool b) = b"
| "py_truthy (JInt i) = (i \<noteq> 0)"
| "py_truthy (JStr s) = (s \<noteq> [])"

fun json_eq :: "jval \<Rightarrow> jval \<Rightarrow> bool" where
  "json_eq JNull JNull = True"
| "json_eq (JBool a) (JBool b) = (a = b)"
| "json_eq (JBool a) (JInt i) = ((if a then 1 else 0) = i)"
| "json_eq (JInt i) (JBool b) = (i = (if b then 1 else 0))"
| "json_eq (JInt i) (JInt j) = (i = j)"
| "json_eq (JStr s) (JStr t) = (s = t)"
| "json_eq _ _ = False"

fun json_truthy :: "request_json \<Rightarrow> bool" where
  "json_truthy (JsonObject d) = (d \<noteq> [])"
| "json_truthy (JsonArray xs) = (xs \<noteq> [])"
| "json_truthy (JsonScalar v) = py_truthy v"

text \<open>
  The stored dicts \<open>new_user\<close> and \<open>new_post\<close>: \<open>id\<close> is an integer, the other values
  are taken from the request as they came. Two such dicts are \<open>==\<close> when all their
  values are.
\<close>

record fl_user =
  fl_user_id :: int
  fl_user_name :: jval
  fl_user_email :: jval

record fl_post =
  fl_post_id :: int
  fl_post_title :: jval
  fl_post_content :: jval
  fl_post_user_id :: jval
  fl_post_author :: jval

definition fl_user_eq :: "fl_user \<Rightarrow> fl_user \<Rightarrow> bool" where
  "fl_user_eq u v =
     (fl_user_id u = fl_user_id v \<and> json_eq (fl_user_name u) (fl_user_name v)
      \<and> json_eq (fl_user_email u) (fl_user_email v))"

record fl_state =
  fl_users :: "fl_user list"
  fl_posts :: "fl_post list"

definition fl_init :: fl_state where
  "fl_init = \<lparr> fl_users = [], fl_posts = [] \<rparr>"

text \<open>
  A Flask handler returns a body and a status code (200 when it returns the body alone).
  \<open>jsonify(user)\<close> is the JSON object with the keys of the dict. An exception that the
  handler does not catch (\<open>AttributeError\<close> of \<open>data.get\<close> on a body that is no object)
  is answered by the handler registered for 500.
\<close>

datatype flask_body =
    ErrorJson string
  | UserJson "(string \<times> jval) list"
  | PostJson "(string \<times> jval) list"
  | UsersJson "(string \<times> jval) list list" nat
  | PostsJson "(string \<times> jval) list list" nat
  | EmptyBody

type_synonym flask_response = "flask_body \<times> nat"

definition jsonify_user :: "fl_user \<Rightarrow> (string \<times> jval) list" where
  "jsonify_user u =
     [(''id'', JInt (fl_user_id u)), (''name'', fl_user_name u), (''email'', fl_user_email u)]"

definition jsonify_post :: "fl_post \<Rightarrow> (string \<times> jval) list" where
  "jsonify_post p =
     [(''id'', JInt (fl_post_id p)), (''title'', fl_post_title p), (''content'', fl_post_content p),
      (''user_id'', fl_post_user_id p), (''author'', fl_post_author p)]"

definition internal_error :: flask_response where
  "internal_error = (ErrorJson ''Internal server error'', 500)"

definition flask_get_users :: "fl_state \<Rightarrow> flask_response" where
  "flask_get_users st = (UsersJson (map jsonify_user (fl_users st)) (length (fl_users st)), 200)"

text \<open>
  \<open>not data.get('name')\<close> holds when the key is missing and when its value is falsy;
  past that check \<open>data['name']\<close> is the value found.
\<close>

definition flask_create_user :: "fl_state \<Rightarrow> request_json \<Rightarrow> flask_response \<times> fl_state" where
  "flask_create_user st data =
     (if \<not> json_truthy data then ((ErrorJson ''No data provided'', 400), st)
      else case data of
        JsonObject d \<Rightarrow>
          (case map_of d ''name'' of
             None \<Rightarrow> ((ErrorJson ''Name is required'', 400), st)
           | Some name \<Rightarrow>
               if \<not> py_truthy name then ((ErrorJson ''Name is required'', 400), st)
               else
                 (case map_of d ''email'' of
                    None \<Rightarrow> ((ErrorJson ''Email is required'', 400), st)
                  | Some email \<Rightarrow>
                      if \<not> py_truthy email then ((ErrorJson ''Email is required'', 400), st)
                      else if list_ex (\<lambda>user. json_eq (fl_user_email user) email) (fl_users st)
                        then ((ErrorJson ''Email already exists'', 409), st)
                      else
                        let new_user = \<lparr> fl_user_id = int (length (fl_users st)) + 1,
                                         fl_user_name = name,
                                         fl_user_email = email \<rparr>
                        in ((UserJson (jsonify_user new_user), 201),
                            st\<lparr> fl_users := fl_users st @ [new_user] \<rparr>)))
      | _ \<Rightarrow> (internal_error, st))"

definition flask_get_user :: "fl_state \<Rightarrow> int \<Rightarrow> flask_response" where
  "flask_get_user st user_id =
     (case find (\<lambda>u. fl_user_id u = user_id) (fl_users st) of
        Some user \<Rightarrow> (UserJson (jsonify_user user), 200)
      | None \<Rightarrow> (ErrorJson ''User not found'', 404))"

definition flask_delete_user :: "fl_state \<Rightarrow> int \<Rightarrow> flask_response \<times> fl_state" where
  "flask_delete_user st user_id =
     (case find (\<lambda>u. fl_user_id u = user_id) (fl_users st) of
        Some user \<Rightarrow>
          (case py_remove fl_user_eq user (fl_users st) of
             None \<Rightarrow> (internal_error, st)
           | Some users' \<Rightarrow> ((EmptyBody, 204), st\<lparr> fl_users := users' \<rparr>))
      | None \<Rightarrow> ((ErrorJson ''User not found'', 404), st))"

text \<open>
  \<open>request.args.get('user_id', type=int)\<close> is the integer in the query string, or \<open>None\<close>
  when the parameter is absent or no integer; \<open>if user_id:\<close> is false for \<open>None\<close> and 0.
\<close>

definition flask_get_posts :: "fl_state \<Rightarrow> int option \<Rightarrow> flask_response" where
  "flask_get_posts st user_id =
     (let filtered_posts =
            (case user_id of
               None \<Rightarrow> fl_posts st
             | Some uid \<Rightarrow>
                 if uid = 0 then fl_posts st
                 else filter (\<lambda>p. json_eq (fl_post_user_id p) (JInt uid)) (fl_posts st))
      in (PostsJson (map jsonify_post filtered_posts) (length filtered_posts), 200))"

definition flask_create_post :: "fl_state \<Rightarrow> request_json \<Rightarrow> flask_response \<times> fl_state" where
  "flask_create_post st data =
     (if \<not> json_truthy data then ((ErrorJson ''No data provided'', 400), st)
      else case data of
        JsonObject d \<Rightarrow>
          (case map_of d ''title'' of
             None \<Rightarrow> ((ErrorJson ''Title is required'', 400), st)
           | Some title \<Rightarrow>
               if \<not> py_truthy title then ((ErrorJson ''Title is required'', 400), st)
               else
                 (case map_of d ''content'' of
                    None \<Rightarrow> ((ErrorJson ''Content is required'', 400), st)
                  | Some content \<Rightarrow>
                      if \<not> py_truthy content then ((ErrorJson ''Content is required'', 400), st)
                      else
                        (case map_of d ''user_id'' of
                           None \<Rightarrow> ((ErrorJson ''user_id is required'', 400), st)
                         | Some uid \<Rightarrow>
                             if \<not> py_truthy uid then ((ErrorJson ''user_id is required'', 400), st)
                             else
                               (case find (\<lambda>u. json_eq (JInt (fl_user_id u)) uid) (fl_users st) of
                                  None \<Rightarrow> ((ErrorJson ''User not found'', 404), st)
                                | Some user \<Rightarrow>
                                    let new_post = \<lparr> fl_post_id = int (length (fl_posts st)) + 1,
                                                     fl_post_title = title,
                                                     fl_post_content = content,
                                                     fl_post_user_id = uid,
                                                     fl_post_author = fl_user_name user \<rparr>
                                    in ((PostJson (jsonify_post new_post), 201),
                                        st\<lparr> fl_posts := fl_posts st @ [new_post] \<rparr>)))))
      | _ \<Rightarrow> (internal_error, st))"

definition flask_get_post :: "fl_state \<Rightarrow> int \<Rightarrow> flask_response" where
  "flask_get_post st post_id =
     (case find (\<lambda>p. fl_post_id p = post_id) (fl_posts st) of
        Some post \<Rightarrow> (PostJson (jsonify_post post), 200)
      | None \<Rightarrow> (ErrorJson ''Post not found'', 404))"

section \<open>Example requests and runs\<close>

text \<open>The response of the specification's parsing example.\<close>

definition example_response :: string where
  "example_response =
     ''HTTP/1.1 200 OK'' @ CRLF @ ''Content-Type: text/plain'' @ CRLF @ CRLF @ ''hello''"

text \<open>
  A run of the FastAPI service from its initial state: two users are created, the first
  one is deleted, a third one is created, and the user with identifier 2 is deleted.
\<close>

definition alice :: UserCreate where
  "alice = \<lparr> uc_name = ''Alice'', uc_email = ''alice@example.com'', uc_age = 30 \<rparr>"

definition bob :: UserCreate where
  "bob = \<lparr> uc_name = ''Bob'', uc_email = ''bob@example.com'', uc_age = 41 \<rparr>"

definition carol :: UserCreate where
  "carol = \<lparr> uc_name = ''Carol'', uc_email = ''carol@example.com'', uc_age = 52 \<rparr>"

definition fa_s1 :: fa_state where
  "fa_s1 = snd (fastapi_create_user fa_init 1000 alice)"

definition fa_s2 :: fa_state where
  "fa_s2 = snd (fastapi_create_user fa_s1 1001 bob)"

definition fa_s3 :: fa_state where
  "fa_s3 = snd (fastapi_delete_user fa_s2 1)"

definition fa_s4 :: fa_state where
  "fa_s4 = snd (fastapi_create_user fa_s3 1002 carol)"

definition fa_s5 :: fa_state where
  "fa_s5 = snd (fastapi_delete_user fa_s4 2)"

text \<open>The same run of the Flask service.\<close>

definition ann :: request_json where
  "ann = JsonObject [(''name'', JStr ''Ann''), (''email'', JStr ''ann@example.com'')]"

definition ben :: request_json where
  "ben = JsonObject [(''name'', JStr ''Ben''), (''email'', JStr ''ben@example.com'')]"

definition cat :: request_json where
  "cat = JsonObject [(''name'', JStr ''Cat''), (''email'', JStr ''cat@example.com'')]"

definition fl_s1 :: fl_state where
  "fl_s1 = snd (flask_create_user fl_init ann)"

definition fl_s2 :: fl_state where
  "fl_s2 = snd (flask_create_user fl_s1 ben)"

definition fl_s3 :: fl_state where
  "fl_s3 = snd (flask_delete_user fl_s2 1)"

definition fl_s4 :: fl_state where
  "fl_s4 = snd (flask_create_user fl_s3 cat)"

definition fl_s5 :: fl_state where
  "fl_s5 = snd (flask_delete_user fl_s4 2)"

text \<open>A state of each service in which user 1 owns a post.\<close>

definition hello_post :: PostCreate where
  "hello_post = \<lparr> pc_title = ''Hello'', pc_content = ''First post'', pc_user_id = 1 \<rparr>"

definition fa_with_post :: fa_state where
  "fa_with_post = snd (fastapi_create_post fa_s2 1003 1 hello_post)"

definition hello_json :: request_json where
  "hello_json = JsonObject [(''title'', JStr ''Hello''), (''content'', JStr ''First post''),
                            (''user_id'', JInt 1)]"

definition fl_with_post :: fl_state where
  "fl_with_post = snd (flask_create_post fl_s2 hello_json)"

text \<open>
  A Flask request with the email of the stored user Ann and no name, and one with her
  email and another name.
\<close>

definition dup_email_no_name :: request_json where
  "dup_email_no_name = JsonObject [(''email'', JStr ''ann@example.com'')]"

definition dup_email_named :: "(string \<times> jval) list" where
  "dup_email_named = [(''name'', JStr ''Anna''), (''email'', JStr ''ann@example.com'')]"

definition alice_again :: UserCreate where
  "alice_again = \<lparr> uc_name = ''Alicia'', uc_email = ''alice@example.com'', uc_age = 29 \<rparr>"

text \<open>
  Create-post requests for the user 99, who does not exist: a Flask request without a
  title, a complete Flask request, and a FastAPI body.
\<close>

definition post_no_title :: request_json where
  "post_no_title = JsonObject [(''content'', JStr ''First post''), (''user_id'', JInt 99)]"

definition post_unknown_user :: "(string \<times> jval) list" where
  "post_unknown_user = [(''title'', JStr ''Hello''), (''content'', JStr ''First post''),
                        (''user_id'', JInt 99)]"

definition post_for_99 :: PostCreate where
  "post_for_99 = \<lparr> pc_title = ''Hello'', pc_content = ''First post'', pc_user_id = 99 \<rparr>"

text \<open>
  The user listing as the specification words it, to compare the two \<open>get_users\<close> with:
  of the users that match the search, the page that starts after \<open>skip\<close> users and holds
  at most \<open>limit\<close> of them, together with the number of users in it.
\<close>

definition spec_get_users :: "('u \<Rightarrow> bool) \<Rightarrow> 'u list \<Rightarrow> nat \<Rightarrow> nat \<Rightarrow> 'u list \<times> nat" where
  "spec_get_users matches users skip limit =
     (let page = take limit (drop skip (filter matches users)) in (page, length page))"

section \<open>The HTTP client\<close>

lemma py_split_aux_nonempty: "py_split_aux sep m k cur s \<noteq> []"
  by (induction s arbitrary: m k cur) auto

lemma py_split_nonempty: "py_split sep m s \<noteq> []"
  by (simp add: py_split_def py_split_aux_nonempty)

text \<open>
  \<open>int\<close> drops the whitespace of ASCII, NEL and the no-break space around the digits,
  raises on the separators 0x1C to 0x1F that \<open>strip\<close> would drop, and raises on a
  literal with more digits than the limit.
\<close>

lemma py_int_whitespace:
  "py_int ([CHR 0x09] @ ''200'' @ [CHR 0x0A]) = Inr 200
   \<and> py_int (CHR 0x85 # ''200'') = Inr 200
   \<and> py_int (CHR 0xA0 # ''200 '') = Inr 200
   \<and> py_int (CHR 0x1C # ''200'') = Inl ValueError
   \<and> py_int (''200'' @ [CHR 0x1F]) = Inl ValueError"
  by code_simp

lemma py_int_unsigned_digit_limit:
  "int_max_str_digits < length (filter is_digit ds) \<Longrightarrow> py_int_unsigned ds = None"
  by (auto simp: py_int_unsigned_def split: list.splits option.splits)

text \<open>
  C5. Parsing the response with status line \<open>HTTP/1.1 200 OK\<close>, the one header
  \<open>Content-Type: text/plain\<close>, an empty line and the body \<open>hello\<close>, the lines separated by
  CRLF, gives protocol \<open>HTTP/1.1\<close>, status code 200, status message \<open>OK\<close>, the headers
  \<open>{"Content-Type": "text/plain"}\<close> and the body \<open>hello\<close>.
\<close>

theorem parse_http_response_example:
  "parse_http_response example_response =
     Inr \<lparr> protocol = ''HTTP/1.1'', status_code = 200, status_message = ''OK'',
           headers = [(''Content-Type'', ''text/plain'')], body = ''hello'' \<rparr>"
  by code_simp

lemma py_join_snoc_empty: "xs \<noteq> [] \<Longrightarrow> py_join sep (xs @ [[]]) = py_join sep xs @ sep"
  by (induction sep xs rule: py_join.induct) auto

lemma py_join_snoc: "xs \<noteq> [] \<Longrightarrow> py_join sep (xs @ [x]) = py_join sep xs @ sep @ x"
  by (induction sep xs rule: py_join.induct) auto

text \<open>
  Without a body the request is the request line, the \<open>Host\<close> header, \<open>Connection: close\<close>
  and the caller's headers, each followed by one CRLF: the \<open>""\<close> that is appended
  \<open># Empty line to end headers\<close> adds the CRLF after the last header and nothing after it.
\<close>

lemma build_request_without_body:
  "build_request method host path hdrs None =
     py_join CRLF ([method @ '' '' @ request_path path @ '' HTTP/1.1'', ''Host: '' @ host,
                    ''Connection: close''] @ header_lines hdrs) @ CRLF"
proof -
  have "request_lines method host path hdrs None =
      ([method @ '' '' @ request_path path @ '' HTTP/1.1'', ''Host: '' @ host,
        ''Connection: close''] @ header_lines hdrs) @ [[]]"
    by (simp add: request_lines_def)
  then show ?thesis
    unfolding build_request_def by (simp only: py_join_snoc_empty append_is_Nil_conv list.simps simp_thms)
qed

text \<open>With a body the header block does end with an empty line, and the body follows it.\<close>

lemma build_request_with_body:
  assumes "b \<noteq> []"
  shows "build_request method host path hdrs (Some b) =
     py_join CRLF ([method @ '' '' @ request_path path @ '' HTTP/1.1'', ''Host: '' @ host,
                    ''Connection: close''] @ header_lines hdrs)
       @ CRLF @ ''Content-Length: '' @ py_str_nat (length b) @ CRLF @ CRLF @ b"
proof -
  let ?hd = "[method @ '' '' @ request_path path @ '' HTTP/1.1'', ''Host: '' @ host,
              ''Connection: close''] @ header_lines hdrs"
  have "request_lines method host path hdrs (Some b) =
      ((?hd @ [''Content-Length: '' @ py_str_nat (length b)]) @ [[]]) @ [b]"
    using assms by (simp add: request_lines_def)
  moreover have "py_join CRLF (((?hd @ [''Content-Length: '' @ py_str_nat (length b)]) @ [[]]) @ [b])
      = py_join CRLF ?hd @ CRLF @ (''Content-Length: '' @ py_str_nat (length b)) @ CRLF @ CRLF @ b"
    by (subst py_join_snoc, simp, subst py_join_snoc_empty, simp, subst py_join_snoc, simp, simp)
  ultimately show ?thesis
    unfolding build_request_def by simp
qed

lemma ends_with_append: "length t = length u \<Longrightarrow> ends_with (xs @ t) u = (t = u)"
  by (simp add: ends_with_def)

lemma build_request_no_headers_no_body_ending:
  "\<not> ends_with (build_request method host path None None) (CRLF @ CRLF)"
proof -
  have "build_request method host path None None =
      (method @ '' '' @ request_path path @ '' HTTP/1.1'' @ CRLF @ ''Host: '' @ host @ CRLF
        @ ''Connection: clo'') @ (''se'' @ CRLF)"
    by (simp add: build_request_without_body header_lines_def)
  moreover have "length (''se'' @ CRLF) = length (CRLF @ CRLF)"
    by (simp add: CRLF_def)
  moreover have "''se'' @ CRLF \<noteq> CRLF @ CRLF"
    by (simp add: CRLF_def)
  ultimately show ?thesis
    by (simp only: ends_with_append simp_thms)
qed

text \<open>
  C6. The request that \<open>make_http_request\<close> serialises consists of the request line, the
  \<open>Host\<close> header, \<open>Connection: close\<close>, the caller's headers and, with a body, a
  \<open>Content-Length\<close> header and the body, and the header block ends with an empty line, so
  that a request without a body ends in CRLF CRLF. The code at \<open>GET http://httpbin.org/get\<close>
  without headers and body (the call of \<open>demonstrate_http\<close>): the request ends after the
  single CRLF that follows \<open>Connection: close\<close>, and not in CRLF CRLF.
\<close>

theorem request_without_body_ends_in_one_crlf:
  "build_request ''GET'' ''httpbin.org'' ''/get'' None None =
     ''GET /get HTTP/1.1'' @ CRLF @ ''Host: httpbin.org'' @ CRLF @ ''Connection: close'' @ CRLF
   \<and> ends_with (build_request ''GET'' ''httpbin.org'' ''/get'' None None) (CRLF @ CRLF) = False"
  by code_simp

section \<open>Identifiers after a deletion\<close>

text \<open>
  Both services assign \<open>len(users) + 1\<close>. After two creations and the deletion of user 1
  the list has one item, whose identifier is 2, and the next creation assigns 2 again.
\<close>

lemma fa_s4_users:
  "fa_users fa_s4 =
     [\<lparr> fa_user_id = 2, fa_user_name = ''Bob'', fa_user_email = ''bob@example.com'',
        fa_user_age = 41, fa_user_created_at = 1001 \<rparr>,
      \<lparr> fa_user_id = 2, fa_user_name = ''Carol'', fa_user_email = ''carol@example.com'',
        fa_user_age = 52, fa_user_created_at = 1002 \<rparr>]"
  by code_simp

lemma fl_s4_users:
  "fl_users fl_s4 =
     [\<lparr> fl_user_id = 2, fl_user_name = JStr ''Ben'', fl_user_email = JStr ''ben@example.com'' \<rparr>,
      \<lparr> fl_user_id = 2, fl_user_name = JStr ''Cat'', fl_user_email = JStr ''cat@example.com'' \<rparr>]"
  by code_simp

text \<open>
  C1. Creating a user whose email does not occur in the user list returns 201 with the
  created record, and the identifier of the new user is strictly greater than every
  identifier assigned before. The code on the run create, create, delete 1, create: each
  creation returns 201, the second creation is given the identifier 2, and after the
  deletion the third creation is given the identifier 2 again, in both services.
\<close>

theorem create_user_identifier_repeats:
  "fastapi_create_user fa_s1 1001 bob =
     (Inr \<lparr> fa_user_id = 2, fa_user_name = ''Bob'', fa_user_email = ''bob@example.com'',
            fa_user_age = 41, fa_user_created_at = 1001 \<rparr>, fa_s2)
   \<and> fst (fastapi_delete_user fa_s2 1) = Inr ()
   \<and> list_ex (\<lambda>u. fa_user_email u = uc_email carol) (fa_users fa_s3) = False
   \<and> fastapi_create_user fa_s3 1002 carol =
     (Inr \<lparr> fa_user_id = 2, fa_user_name = ''Carol'', fa_user_email = ''carol@example.com'',
            fa_user_age = 52, fa_user_created_at = 1002 \<rparr>, fa_s4)
   \<and> fst (flask_create_user fl_s1 ben) =
     (UserJson [(''id'', JInt 2), (''name'', JStr ''Ben''), (''email'', JStr ''ben@example.com'')], 201)
   \<and> fst (flask_delete_user fl_s2 1) = (EmptyBody, 204)
   \<and> list_ex (\<lambda>u. json_eq (fl_user_email u) (JStr ''cat@example.com'')) (fl_users fl_s3) = False
   \<and> fst (flask_create_user fl_s3 cat) =
     (UserJson [(''id'', JInt 2), (''name'', JStr ''Cat''), (''email'', JStr ''cat@example.com'')], 201)"
  by code_simp

text \<open>
  C4. In every state that the public operations reach, after a successful deletion of
  the user with identifier k a get-by-id for k returns 404 until k is assigned again.
  The code in the state reached by create, create, delete 1, create, where two users carry
  the identifier 2: the deletion of 2 succeeds with 204 and removes the older of them, and
  the get-by-id for 2 that follows returns the other one with status 200, in both
  services.
\<close>

theorem get_after_delete_finds_duplicate:
  "fa_status 204 (fst (fastapi_delete_user fa_s4 2)) = 204
   \<and> fastapi_get_user fa_s5 2 =
       Inr \<lparr> fa_user_id = 2, fa_user_name = ''Carol'', fa_user_email = ''carol@example.com'',
             fa_user_age = 52, fa_user_created_at = 1002 \<rparr>
   \<and> fa_status 200 (fastapi_get_user fa_s5 2) = 200
   \<and> fst (flask_delete_user fl_s4 2) = (EmptyBody, 204)
   \<and> flask_get_user fl_s5 2 =
       (UserJson [(''id'', JInt 2), (''name'', JStr ''Cat''), (''email'', JStr ''cat@example.com'')], 200)"
  by code_simp

text \<open>
  C7. After a create request that succeeds with 201, a get-by-id with the identifier of
  the response returns the values that were submitted. The code after create, create,
  delete 1: the creation of the third user returns 201 with the identifier 2, and the
  get-by-id for 2 that follows returns the record of the second user, whose values (name,
  email and, in FastAPI, age) are not the ones submitted, in both services.
\<close>

theorem create_then_get_returns_older_record:
  "fa_status 201 (fst (fastapi_create_user fa_s3 1002 carol)) = 201
   \<and> map_sum id fa_user_id (fst (fastapi_create_user fa_s3 1002 carol)) = Inr 2
   \<and> snd (fastapi_create_user fa_s3 1002 carol) = fa_s4
   \<and> fastapi_get_user fa_s4 2 =
       Inr \<lparr> fa_user_id = 2, fa_user_name = ''Bob'', fa_user_email = ''bob@example.com'',
             fa_user_age = 41, fa_user_created_at = 1001 \<rparr>
   \<and> fst (flask_create_user fl_s3 cat) =
       (UserJson [(''id'', JInt 2), (''name'', JStr ''Cat''), (''email'', JStr ''cat@example.com'')], 201)
   \<and> snd (flask_create_user fl_s3 cat) = fl_s4
   \<and> flask_get_user fl_s4 2 =
       (UserJson [(''id'', JInt 2), (''name'', JStr ''Ben''), (''email'', JStr ''ben@example.com'')], 200)"
  by code_simp

section \<open>Listing posts\<close>

text \<open>For bounds that passed the \<open>Query\<close> constraints the slice is a drop followed by a take.\<close>

lemma py_slice_skip_limit:
  assumes "0 \<le> skip" and "0 \<le> limit"
  shows "py_slice xs skip (skip + limit) = take (nat limit) (drop (nat skip) xs)"
proof (cases "skip \<le> int (length xs)")
  case True
  have "take (nat (min (skip + limit) (int (length xs)) - skip)) (drop (nat skip) xs)
      = take (nat limit) (drop (nat skip) xs)"
  proof (cases "skip + limit \<le> int (length xs)")
    case True
    then show ?thesis by (simp add: min_def)
  next
    case False
    with \<open>skip \<le> int (length xs)\<close> assms have "length (drop (nat skip) xs) \<le> nat limit"
      by auto
    moreover from False \<open>skip \<le> int (length xs)\<close> assms
    have "length (drop (nat skip) xs) \<le> nat (min (skip + limit) (int (length xs)) - skip)"
      by (auto simp: min_def)
    ultimately show ?thesis by simp
  qed
  with True assms show ?thesis
    by (simp add: py_slice_def Let_def min_def)
next
  case False
  with assms show ?thesis
    by (simp add: py_slice_def Let_def min_def)
qed

text \<open>
  C10. The post listing treats the filter value \<open>user_id = 0\<close> as an absent filter: it
  returns the whole post list (in FastAPI cut by \<open>skip\<close> and \<open>limit\<close>), not the posts whose
  \<open>user_id\<close> is 0.
\<close>

theorem get_posts_user_id_zero:
  "fastapi_get_posts st (Some 0) skip limit = fastapi_get_posts st None skip limit
   \<and> fastapi_get_posts st (Some 0) skip limit =
       (if skip < 0 \<or> limit < 1 \<or> 100 < limit then Inl RequestValidationError
        else Inr (take (nat limit) (drop (nat skip) (fa_posts st))))
   \<and> flask_get_posts fs (Some 0) = flask_get_posts fs None
   \<and> flask_get_posts fs (Some 0) =
       (PostsJson (map jsonify_post (fl_posts fs)) (length (fl_posts fs)), 200)"
proof -
  have "fastapi_get_posts st (Some 0) skip limit = fastapi_get_posts st None skip limit"
    by (simp add: fastapi_get_posts_def)
  moreover have "fastapi_get_posts st (Some 0) skip limit =
       (if skip < 0 \<or> limit < 1 \<or> 100 < limit then Inl RequestValidationError
        else Inr (take (nat limit) (drop (nat skip) (fa_posts st))))"
    by (simp add: fastapi_get_posts_def py_slice_skip_limit)
  moreover have "flask_get_posts fs (Some 0) = flask_get_posts fs None"
    by (simp add: flask_get_posts_def)
  moreover have "flask_get_posts fs (Some 0) =
       (PostsJson (map jsonify_post (fl_posts fs)) (length (fl_posts fs)), 200)"
    by (simp add: flask_get_posts_def Let_def)
  ultimately show ?thesis by blast
qed

section \<open>Deleting a user\<close>

text \<open>
  \<open>remove\<close> is called with the item that \<open>next(...)\<close> found, the first one that
  satisfies \<open>P\<close>. No earlier item is equal to it when equal items agree on \<open>P\<close>, so
  exactly the item found is removed.
\<close>

lemma py_remove_found:
  assumes "find P xs = Some u" and "eq u u" and "\<And>v. eq v u \<Longrightarrow> P v"
  shows "\<exists>pre suf. xs = pre @ u # suf \<and> (\<forall>v\<in>set pre. \<not> P v) \<and> py_remove eq u xs = Some (pre @ suf)"
  using assms(1)
proof (induction xs)
  case Nil
  then show ?case by simp
next
  case (Cons y ys)
  show ?case
  proof (cases "P y")
    case True
    with Cons.prems have "y = u" by simp
    with assms(2) have "y # ys = [] @ u # ys \<and> (\<forall>v\<in>set []. \<not> P v) \<and> py_remove eq u (y # ys) = Some ([] @ ys)"
      by simp
    then show ?thesis by blast
  next
    case False
    with Cons.prems have "find P ys = Some u" by simp
    from Cons.IH [OF this] obtain pre suf where
      *: "ys = pre @ u # suf" "\<forall>v\<in>set pre. \<not> P v" "py_remove eq u ys = Some (pre @ suf)"
      by blast
    from False assms(3) have "\<not> eq y u" by blast
    with * False have "y # ys = (y # pre) @ u # suf \<and> (\<forall>v\<in>set (y # pre). \<not> P v)
        \<and> py_remove eq u (y # ys) = Some ((y # pre) @ suf)"
      by simp
    then show ?thesis by blast
  qed
qed

lemma find_Some_P: "find P xs = Some u \<Longrightarrow> P u"
  by (induction xs) (auto split: if_splits)

lemma json_eq_refl: "json_eq v v"
  by (cases v) auto

lemma fl_user_eq_refl: "fl_user_eq u u"
  by (simp add: fl_user_eq_def json_eq_refl)

lemma fastapi_delete_user_cases:
  assumes "fastapi_delete_user st k = (r, st')"
  shows "(r = Inl (HTTPException 404 ''User not found'') \<and> st' = st
          \<and> find (\<lambda>u. fa_user_id u = k) (fa_users st) = None)
       \<or> (r = Inr () \<and> (\<exists>pre u suf. fa_users st = pre @ u # suf \<and> fa_user_id u = k
            \<and> (\<forall>v\<in>set pre. fa_user_id v \<noteq> k) \<and> st' = st\<lparr> fa_users := pre @ suf \<rparr>))"
proof (cases "find (\<lambda>u. fa_user_id u = k) (fa_users st)")
  case None
  with assms show ?thesis by (simp add: fastapi_delete_user_def)
next
  case (Some u)
  from find_Some_P [OF Some] have k: "fa_user_id u = k" .
  from py_remove_found [of "\<lambda>u. fa_user_id u = k" "fa_users st" u "(=)", OF Some] k
  obtain pre suf where *: "fa_users st = pre @ u # suf" "\<forall>v\<in>set pre. fa_user_id v \<noteq> k"
      "py_remove (=) u (fa_users st) = Some (pre @ suf)"
    by auto
  with assms Some have "r = Inr ()" "st' = st\<lparr> fa_users := pre @ suf \<rparr>"
    by (auto simp: fastapi_delete_user_def)
  with * k show ?thesis by blast
qed

lemma flask_delete_user_cases:
  assumes "flask_delete_user fs k = (r, fs')"
  shows "(r = (ErrorJson ''User not found'', 404) \<and> fs' = fs
          \<and> find (\<lambda>u. fl_user_id u = k) (fl_users fs) = None)
       \<or> (r = (EmptyBody, 204) \<and> (\<exists>pre u suf. fl_users fs = pre @ u # suf \<and> fl_user_id u = k
            \<and> (\<forall>v\<in>set pre. fl_user_id v \<noteq> k) \<and> fs' = fs\<lparr> fl_users := pre @ suf \<rparr>))"
proof (cases "find (\<lambda>u. fl_user_id u = k) (fl_users fs)")
  case None
  with assms show ?thesis by (simp add: flask_delete_user_def)
next
  case (Some u)
  from find_Some_P [OF Some] have k: "fl_user_id u = k" .
  have "\<And>v. fl_user_eq v u \<Longrightarrow> fl_user_id v = k"
    using k by (simp add: fl_user_eq_def)
  from py_remove_found [of "\<lambda>u. fl_user_id u = k" "fl_users fs" u fl_user_eq, OF Some fl_user_eq_refl this]
  obtain pre suf where *: "fl_users fs = pre @ u # suf" "\<forall>v\<in>set pre. fl_user_id v \<noteq> k"
      "py_remove fl_user_eq u (fl_users fs) = Some (pre @ suf)"
    by auto
  with assms Some have "r = (EmptyBody, 204)" "fs' = fs\<lparr> fl_users := pre @ suf \<rparr>"
    by (auto simp: flask_delete_user_def)
  with * k show ?thesis by blast
qed

text \<open>
  C9. A successful deletion of user k removes exactly one record from the user list, the
  first one with identifier k, and leaves the post list as it was: every post, also
  those whose \<open>user_id\<close> is k, is still stored and is returned by the post endpoints as
  before.
\<close>

theorem delete_user_frame:
  "(fastapi_delete_user st k = (r, st') \<and> fa_status 204 r = 204 \<longrightarrow>
      fa_posts st' = fa_posts st
      \<and> (\<exists>pre u suf. fa_users st = pre @ u # suf \<and> fa_user_id u = k
            \<and> (\<forall>v\<in>set pre. fa_user_id v \<noteq> k) \<and> fa_users st' = pre @ suf)
      \<and> (\<forall>post_id. fastapi_get_post st' post_id = fastapi_get_post st post_id)
      \<and> (\<forall>uid skip limit. fastapi_get_posts st' uid skip limit = fastapi_get_posts st uid skip limit))
   \<and> (flask_delete_user fs k = ((b, 204), fs') \<longrightarrow>
      fl_posts fs' = fl_posts fs
      \<and> (\<exists>pre u suf. fl_users fs = pre @ u # suf \<and> fl_user_id u = k
            \<and> (\<forall>v\<in>set pre. fl_user_id v \<noteq> k) \<and> fl_users fs' = pre @ suf)
      \<and> (\<forall>post_id. flask_get_post fs' post_id = flask_get_post fs post_id)
      \<and> (\<forall>uid. flask_get_posts fs' uid = flask_get_posts fs uid))"
proof (intro conjI impI)
  assume a: "fastapi_delete_user st k = (r, st') \<and> fa_status 204 r = 204"
  then have "r \<noteq> Inl (HTTPException 404 ''User not found'')" by auto
  with a fastapi_delete_user_cases [of st k r st'] obtain pre u suf where
    *: "fa_users st = pre @ u # suf" "fa_user_id u = k" "\<forall>v\<in>set pre. fa_user_id v \<noteq> k"
       "st' = st\<lparr> fa_users := pre @ suf \<rparr>"
    by blast
  from * show "fa_posts st' = fa_posts st" by simp
  from * show "\<exists>pre u suf. fa_users st = pre @ u # suf \<and> fa_user_id u = k
      \<and> (\<forall>v\<in>set pre. fa_user_id v \<noteq> k) \<and> fa_users st' = pre @ suf"
    by auto
  from * show "\<forall>post_id. fastapi_get_post st' post_id = fastapi_get_post st post_id"
    by (simp add: fastapi_get_post_def)
  from * show "\<forall>uid skip limit. fastapi_get_posts st' uid skip limit = fastapi_get_posts st uid skip limit"
    by (auto simp: fastapi_get_posts_def split: option.splits)
next
  assume a: "flask_delete_user fs k = ((b, 204), fs')"
  with flask_delete_user_cases [of fs k "(b, 204)" fs'] obtain pre u suf where
    *: "fl_users fs = pre @ u # suf" "fl_user_id u = k" "\<forall>v\<in>set pre. fl_user_id v \<noteq> k"
       "fs' = fs\<lparr> fl_users := pre @ suf \<rparr>"
    by auto
  from * show "fl_posts fs' = fl_posts fs" by simp
  from * show "\<exists>pre u suf. fl_users fs = pre @ u # suf \<and> fl_user_id u = k
      \<and> (\<forall>v\<in>set pre. fl_user_id v \<noteq> k) \<and> fl_users fs' = pre @ suf"
    by auto
  from * show "\<forall>post_id. flask_get_post fs' post_id = flask_get_post fs post_id"
    by (simp add: flask_get_post_def)
  from * show "\<forall>uid. flask_get_posts fs' uid = flask_get_posts fs uid"
    by (auto simp: flask_get_posts_def split: option.splits)
qed

text \<open>
  The deletion of user 1, who owns a post: the post stays and is still found by its
  identifier, with the \<open>user_id\<close> of the user that is gone.
\<close>

theorem delete_user_frame_witness:
  "fa_status 204 (fst (fastapi_delete_user fa_with_post 1)) = 204
   \<and> fa_posts (snd (fastapi_delete_user fa_with_post 1)) = fa_posts fa_with_post
   \<and> length (fa_users (snd (fastapi_delete_user fa_with_post 1))) = 1
   \<and> map_sum id fa_post_user_id (fastapi_get_post (snd (fastapi_delete_user fa_with_post 1)) 1) = Inr 1
   \<and> fst (flask_delete_user fl_with_post 1) = (EmptyBody, 204)
   \<and> fl_posts (snd (flask_delete_user fl_with_post 1)) = fl_posts fl_with_post
   \<and> length (fl_users (snd (flask_delete_user fl_with_post 1))) = 1
   \<and> snd (flask_get_post (snd (flask_delete_user fl_with_post 1)) 1) = 200"
proof -
  have h1: "fastapi_delete_user fa_with_post 1 =
        (fst (fastapi_delete_user fa_with_post 1), snd (fastapi_delete_user fa_with_post 1))
      \<and> fa_status 204 (fst (fastapi_delete_user fa_with_post 1)) = 204"
    by code_simp
  have h2: "flask_delete_user fl_with_post 1 = ((EmptyBody, 204), snd (flask_delete_user fl_with_post 1))"
    by code_simp
  have h3: "fst (flask_delete_user fl_with_post 1) = (EmptyBody, 204)"
    by code_simp
  have c1: "length (fa_users (snd (fastapi_delete_user fa_with_post 1))) = 1
      \<and> map_sum id fa_post_user_id (fastapi_get_post fa_with_post 1) = Inr 1"
    by code_simp
  have c2: "length (fl_users (snd (flask_delete_user fl_with_post 1))) = 1
      \<and> snd (flask_get_post fl_with_post 1) = 200"
    by code_simp
  from delete_user_frame [where st = fa_with_post and k = 1
      and r = "fst (fastapi_delete_user fa_with_post 1)"
      and st' = "snd (fastapi_delete_user fa_with_post 1)"
      and fs = fl_with_post and b = EmptyBody
      and fs' = "snd (flask_delete_user fl_with_post 1)"] h1 h2
  have "fa_posts (snd (fastapi_delete_user fa_with_post 1)) = fa_posts fa_with_post"
    and "fastapi_get_post (snd (fastapi_delete_user fa_with_post 1)) 1 = fastapi_get_post fa_with_post 1"
    and "fl_posts (snd (flask_delete_user fl_with_post 1)) = fl_posts fl_with_post"
    and "flask_get_post (snd (flask_delete_user fl_with_post 1)) 1 = flask_get_post fl_with_post 1"
    by blast+
  with h1 h3 c1 c2 show ?thesis by simp
qed

section \<open>Creating a user\<close>

text \<open>A request that is not answered with 201 leaves the state as it was.\<close>

lemma fastapi_create_user_rejected:
  "fastapi_create_user st now user = (Inl e, st') \<Longrightarrow> st' = st"
  by (auto simp: fastapi_create_user_def Let_def split: if_splits)

lemma flask_create_user_rejected:
  "flask_create_user fs data = ((b, code), fs') \<Longrightarrow> code \<noteq> 201 \<Longrightarrow> fs' = fs"
  by (auto simp: flask_create_user_def Let_def internal_error_def
      split: if_splits request_json.splits option.splits)

text \<open>
  A request with an email that occurs in no stored user, and (in Flask) with a name and
  an email that are present and truthy, is answered with 201 and the record that was
  appended, whose identifier is the length of the list plus one.
\<close>

lemma fastapi_create_user_created:
  assumes "\<not> list_ex (\<lambda>u. fa_user_email u = uc_email user) (fa_users st)"
  shows "\<exists>new_user. fastapi_create_user st now user =
            (Inr new_user, st\<lparr> fa_users := fa_users st @ [new_user] \<rparr>)
         \<and> fa_user_id new_user = int (length (fa_users st)) + 1
         \<and> fa_user_name new_user = uc_name user \<and> fa_user_email new_user = uc_email user
         \<and> fa_user_age new_user = uc_age user"
  using assms by (simp add: fastapi_create_user_def Let_def)

lemma flask_create_user_created:
  assumes "map_of d ''name'' = Some name" and "py_truthy name"
    and "map_of d ''email'' = Some email" and "py_truthy email"
    and "\<not> list_ex (\<lambda>u. json_eq (fl_user_email u) email) (fl_users fs)"
  shows "flask_create_user fs (JsonObject d) =
      ((UserJson [(''id'', JInt (int (length (fl_users fs)) + 1)), (''name'', name), (''email'', email)], 201),
       fs\<lparr> fl_users := fl_users fs @
          [\<lparr> fl_user_id = int (length (fl_users fs)) + 1, fl_user_name = name, fl_user_email = email \<rparr>] \<rparr>)"
proof -
  from assms(1) have "d \<noteq> []" by auto
  with assms show ?thesis
    by (simp add: flask_create_user_def Let_def jsonify_user_def)
qed

text \<open>
  Flask checks the name before it looks at the stored emails: a request with the email of
  a stored user and no name is answered with 400, not with 409.
\<close>

theorem create_user_duplicate_email_counterexample:
  "list_ex (\<lambda>u. json_eq (fl_user_email u) (JStr ''ann@example.com'')) (fl_users fl_s1)
   \<and> flask_create_user fl_s1 dup_email_no_name = ((ErrorJson ''Name is required'', 400), fl_s1)
   \<and> snd (fst (flask_create_user fl_s1 dup_email_no_name)) \<noteq> 409"
  by code_simp

text \<open>
  C2, as the code has it. A create-user request that reaches the email check (FastAPI:
  every \<open>UserCreate\<close> the handler is called with; Flask: a JSON object whose name and
  email are present and truthy) and whose email equals the email of a stored user is
  answered with 409, and the state is the one before the request.
\<close>

theorem create_user_duplicate_email_conflict:
  "(list_ex (\<lambda>u. fa_user_email u = uc_email user) (fa_users st) \<longrightarrow>
      fastapi_create_user st now user = (Inl (HTTPException 409 ''Email already exists''), st)
      \<and> fa_status 201 (fst (fastapi_create_user st now user)) = 409)
   \<and> (map_of d ''name'' = Some name \<and> py_truthy name
        \<and> map_of d ''email'' = Some email \<and> py_truthy email
        \<and> list_ex (\<lambda>u. json_eq (fl_user_email u) email) (fl_users fs) \<longrightarrow>
      flask_create_user fs (JsonObject d) = ((ErrorJson ''Email already exists'', 409), fs))"
proof -
  have fa: "list_ex (\<lambda>u. fa_user_email u = uc_email user) (fa_users st) \<longrightarrow>
      fastapi_create_user st now user = (Inl (HTTPException 409 ''Email already exists''), st)
      \<and> fa_status 201 (fst (fastapi_create_user st now user)) = 409"
    by (simp add: fastapi_create_user_def)
  have fl: "map_of d ''name'' = Some name \<and> py_truthy name
        \<and> map_of d ''email'' = Some email \<and> py_truthy email
        \<and> list_ex (\<lambda>u. json_eq (fl_user_email u) email) (fl_users fs) \<longrightarrow>
      flask_create_user fs (JsonObject d) = ((ErrorJson ''Email already exists'', 409), fs)"
  proof
    assume a: "map_of d ''name'' = Some name \<and> py_truthy name
        \<and> map_of d ''email'' = Some email \<and> py_truthy email
        \<and> list_ex (\<lambda>u. json_eq (fl_user_email u) email) (fl_users fs)"
    then have "d \<noteq> []" by auto
    with a show "flask_create_user fs (JsonObject d) = ((ErrorJson ''Email already exists'', 409), fs)"
      by (simp add: flask_create_user_def)
  qed
  from fa fl show ?thesis by (rule conjI)
qed

theorem create_user_duplicate_email_conflict_witness:
  "list_ex (\<lambda>u. fa_user_email u = uc_email alice_again) (fa_users fa_s1)
   \<and> fastapi_create_user fa_s1 1005 alice_again = (Inl (HTTPException 409 ''Email already exists''), fa_s1)
   \<and> map_of dup_email_named ''name'' = Some (JStr ''Anna'') \<and> py_truthy (JStr ''Anna'')
   \<and> map_of dup_email_named ''email'' = Some (JStr ''ann@example.com'')
   \<and> py_truthy (JStr ''ann@example.com'')
   \<and> list_ex (\<lambda>u. json_eq (fl_user_email u) (JStr ''ann@example.com'')) (fl_users fl_s1)
   \<and> flask_create_user fl_s1 (JsonObject dup_email_named) = ((ErrorJson ''Email already exists'', 409), fl_s1)"
proof -
  have h1: "list_ex (\<lambda>u. fa_user_email u = uc_email alice_again) (fa_users fa_s1)"
    by code_simp
  have h2: "map_of dup_email_named ''name'' = Some (JStr ''Anna'') \<and> py_truthy (JStr ''Anna'')
      \<and> map_of dup_email_named ''email'' = Some (JStr ''ann@example.com'')
      \<and> py_truthy (JStr ''ann@example.com'')
      \<and> list_ex (\<lambda>u. json_eq (fl_user_email u) (JStr ''ann@example.com'')) (fl_users fl_s1)"
    by code_simp
  from create_user_duplicate_email_conflict [where st = fa_s1 and user = alice_again and now = 1005
      and d = dup_email_named and name = "JStr ''Anna''" and email = "JStr ''ann@example.com''"
      and fs = fl_s1] h1 h2
  show ?thesis by blast
qed

section \<open>Creating a post\<close>

lemma find_None_iff_no_id: "(find P xs = None) = (\<forall>x\<in>set xs. \<not> P x)"
  by (induction xs) auto

text \<open>A request that is not answered with 201 leaves both lists as they were.\<close>

lemma fastapi_create_post_rejected:
  "fastapi_create_post st now user_id post = (Inl e, st') \<Longrightarrow> st' = st"
  by (auto simp: fastapi_create_post_def Let_def split: sum.splits)

lemma flask_create_post_rejected:
  "flask_create_post fs data = ((b, code), fs') \<Longrightarrow> code \<noteq> 201 \<Longrightarrow> fs' = fs"
  by (auto simp: flask_create_post_def Let_def internal_error_def
      split: if_splits request_json.splits option.splits)

text \<open>
  Flask checks title, content and \<open>user_id\<close> for presence before it looks the user up: a
  request for a user that does not exist and without a title is answered with 400.
\<close>

lemma flask_create_post_guard_before_lookup:
  "list_ex (\<lambda>u. json_eq (JInt (fl_user_id u)) (JInt 99)) (fl_users fl_s1) = False
   \<and> flask_create_post fl_s1 post_no_title = ((ErrorJson ''Title is required'', 400), fl_s1)"
  by code_simp

text \<open>
  The lookup of the user: when the \<open>user_id\<close> that is looked up is the identifier of no
  stored user, the answer is 404 and both lists are the ones before the request. Flask
  looks up the \<open>user_id\<close> of the body, once title, content and \<open>user_id\<close> are present and
  truthy. FastAPI looks up the \<open>user_id\<close> parameter of the dependency \<open>get_user_by_id\<close>.
\<close>

lemma fastapi_create_post_lookup_fails:
  assumes "\<forall>u\<in>set (fa_users st). fa_user_id u \<noteq> user_id"
  shows "fastapi_create_post st now user_id post = (Inl (HTTPException 404 ''User not found''), st)"
proof -
  from assms have "find (\<lambda>u. fa_user_id u = user_id) (fa_users st) = None"
    by (simp add: find_None_iff_no_id)
  then show ?thesis
    by (simp add: fastapi_create_post_def get_user_by_id_def)
qed

lemma flask_create_post_unknown_user:
  assumes "map_of d ''title'' = Some title" and "py_truthy title"
    and "map_of d ''content'' = Some content" and "py_truthy content"
    and "map_of d ''user_id'' = Some uid" and "py_truthy uid"
    and "\<forall>u\<in>set (fl_users fs). \<not> json_eq (JInt (fl_user_id u)) uid"
  shows "flask_create_post fs (JsonObject d) = ((ErrorJson ''User not found'', 404), fs)"
proof -
  from assms(1) have "d \<noteq> []" by auto
  moreover from assms(7) have "find (\<lambda>u. json_eq (JInt (fl_user_id u)) uid) (fl_users fs) = None"
    by (simp add: find_None_iff_no_id)
  ultimately show ?thesis
    using assms(1-6) by (simp add: flask_create_post_def)
qed

lemma flask_create_post_unknown_user_example:
  "flask_create_post fl_s2 (JsonObject post_unknown_user) = ((ErrorJson ''User not found'', 404), fl_s2)"
  by code_simp

text \<open>
  In FastAPI nothing hands \<open>post.user_id\<close> to the dependency: the \<open>user_id\<close> of the body
  is stored in the post and is compared with nothing. Whenever the parameter of the
  dependency names a stored user, the post is created, whatever user the body names.
\<close>

lemma fastapi_create_post_ignores_body_user_id:
  assumes "find (\<lambda>u. fa_user_id u = user_id) (fa_users st) = Some user"
  shows "fastapi_create_post st now user_id post =
     (Inr \<lparr> fa_post_id = int (length (fa_posts st)) + 1, fa_post_title = pc_title post,
            fa_post_content = pc_content post, fa_post_user_id = pc_user_id post,
            fa_post_author = fa_user_name user, fa_post_created_at = now \<rparr>,
      st\<lparr> fa_posts := fa_posts st @
        [\<lparr> fa_post_id = int (length (fa_posts st)) + 1, fa_post_title = pc_title post,
           fa_post_content = pc_content post, fa_post_user_id = pc_user_id post,
           fa_post_author = fa_user_name user, fa_post_created_at = now \<rparr>] \<rparr>)"
  using assms by (simp add: fastapi_create_post_def get_user_by_id_def Let_def)

text \<open>
  C3. A create-post request whose \<open>user_id\<close> is the identifier of no user in the user
  list is answered with 404 and appends nothing to the post list, in both services. The
  code of the FastAPI service with the one user Alice (identifier 1) stored, at the
  request \<open>POST /posts?user_id=1\<close> with the valid body
  \<open>{"title": "Hello", "content": "First post", "user_id": 99}\<close>: no stored user has the
  identifier 99, the answer is 201, and the post is appended with \<open>user_id\<close> 99 and the
  author Alice. The docstring of \<open>create_post\<close> says that the \<open>user_id\<close> is validated by
  the dependency, and Flask's \<open>create_post\<close> does look up the \<open>user_id\<close> of the body.
\<close>

theorem create_post_body_user_id_unchecked:
  "list_ex (\<lambda>u. fa_user_id u = pc_user_id post_for_99) (fa_users fa_s1) = False
   \<and> fa_posts fa_s1 = []
   \<and> fa_status 201 (fst (fastapi_create_post fa_s1 1004 1 post_for_99)) = 201
   \<and> fst (fastapi_create_post fa_s1 1004 1 post_for_99) =
       Inr \<lparr> fa_post_id = 1, fa_post_title = ''Hello'', fa_post_content = ''First post'',
             fa_post_user_id = 99, fa_post_author = ''Alice'', fa_post_created_at = 1004 \<rparr>
   \<and> fa_posts (snd (fastapi_create_post fa_s1 1004 1 post_for_99)) =
       [\<lparr> fa_post_id = 1, fa_post_title = ''Hello'', fa_post_content = ''First post'',
          fa_post_user_id = 99, fa_post_author = ''Alice'', fa_post_created_at = 1004 \<rparr>]"
  by code_simp

section \<open>Listing users\<close>

text \<open>
  Flask's \<open>get_users\<close> reads no query parameter. With two users stored, its response is
  not the second page of size one (\<open>skip = 1\<close>, \<open>limit = 1\<close>) that a listing with
  pagination returns: it holds both users and the count 2.
\<close>

theorem get_users_counterexample:
  "flask_get_users fl_s2 \<noteq>
     (UsersJson (map jsonify_user (fst (spec_get_users (\<lambda>u. True) (fl_users fl_s2) 1 1)))
                (snd (spec_get_users (\<lambda>u. True) (fl_users fl_s2) 1 1)), 200)
   \<and> snd (spec_get_users (\<lambda>u. True) (fl_users fl_s2) 1 1) = 1
   \<and> flask_get_users fl_s2 =
       (UsersJson [[(''id'', JInt 1), (''name'', JStr ''Ann''), (''email'', JStr ''ann@example.com'')],
                   [(''id'', JInt 2), (''name'', JStr ''Ben''), (''email'', JStr ''ben@example.com'')]] 2, 200)"
  by code_simp

text \<open>
  C8, as the code has it. FastAPI's \<open>GET /users\<close> takes \<open>skip\<close> (at least 0), \<open>limit\<close>
  (1 to 100) and an optional \<open>search\<close>, and returns the page of the users whose name
  contains the search term (letter case ignored; all users without a term), as a list
  without a count. Flask's \<open>GET /api/users\<close> takes no parameter and returns all users
  and their number.
\<close>

theorem get_users_listing:
  "(0 \<le> skip \<and> 1 \<le> limit \<and> limit \<le> 100 \<longrightarrow>
      fastapi_get_users st skip limit search =
        Inr (fst (spec_get_users
               (\<lambda>u. case search of None \<Rightarrow> True
                     | Some s \<Rightarrow> s = [] \<or> py_contains (py_lower s) (py_lower (fa_user_name u)))
               (fa_users st) (nat skip) (nat limit)))
      \<and> length (fst (spec_get_users
               (\<lambda>u. case search of None \<Rightarrow> True
                     | Some s \<Rightarrow> s = [] \<or> py_contains (py_lower s) (py_lower (fa_user_name u)))
               (fa_users st) (nat skip) (nat limit))) \<le> nat limit)
   \<and> flask_get_users fs = (UsersJson (map jsonify_user (fl_users fs)) (length (fl_users fs)), 200)"
proof -
  let ?m = "\<lambda>u. case search of None \<Rightarrow> True
                     | Some s \<Rightarrow> s = [] \<or> py_contains (py_lower s) (py_lower (fa_user_name u))"
  have fa: "0 \<le> skip \<and> 1 \<le> limit \<and> limit \<le> 100 \<longrightarrow>
      fastapi_get_users st skip limit search =
        Inr (fst (spec_get_users ?m (fa_users st) (nat skip) (nat limit)))
      \<and> length (fst (spec_get_users ?m (fa_users st) (nat skip) (nat limit))) \<le> nat limit"
  proof
    assume a: "0 \<le> skip \<and> 1 \<le> limit \<and> limit \<le> 100"
    have f: "(case search of None \<Rightarrow> fa_users st
               | Some s \<Rightarrow> if s = [] then fa_users st
                   else filter (\<lambda>u. py_contains (py_lower s) (py_lower (fa_user_name u))) (fa_users st))
          = filter ?m (fa_users st)"
      by (cases search) auto
    from a have "fastapi_get_users st skip limit search =
        Inr (py_slice (filter ?m (fa_users st)) skip (skip + limit))"
      unfolding fastapi_get_users_def Let_def f by simp
    with a show "fastapi_get_users st skip limit search =
        Inr (fst (spec_get_users ?m (fa_users st) (nat skip) (nat limit)))
      \<and> length (fst (spec_get_users ?m (fa_users st) (nat skip) (nat limit))) \<le> nat limit"
      by (simp add: py_slice_skip_limit spec_get_users_def Let_def)
  qed
  have fl: "flask_get_users fs = (UsersJson (map jsonify_user (fl_users fs)) (length (fl_users fs)), 200)"
    by (simp add: flask_get_users_def)
  from fa fl show ?thesis by (rule conjI)
qed

theorem get_users_listing_witness:
  "(0::int) \<le> 1 \<and> (1::int) \<le> 10 \<and> (10::int) \<le> 100
   \<and> fastapi_get_users fa_s4 1 10 (Some ''O'') =
       Inr [\<lparr> fa_user_id = 2, fa_user_name = ''Carol'', fa_user_email = ''carol@example.com'',
               fa_user_age = 52, fa_user_created_at = 1002 \<rparr>]
   \<and> flask_get_users fl_s1 =
       (UsersJson [[(''id'', JInt 1), (''name'', JStr ''Ann''), (''email'', JStr ''ann@example.com'')]] 1, 200)"
proof -
  have h: "(0::int) \<le> 1 \<and> (1::int) \<le> 10 \<and> (10::int) \<le> 100"
    by simp
  have c1: "fst (spec_get_users
               (\<lambda>u. case Some ''O'' of None \<Rightarrow> True
                     | Some s \<Rightarrow> s = [] \<or> py_contains (py_lower s) (py_lower (fa_user_name u)))
               (fa_users fa_s4) (nat 1) (nat 10)) =
       [\<lparr> fa_user_id = 2, fa_user_name = ''Carol'', fa_user_email = ''carol@example.com'',
               fa_user_age = 52, fa_user_created_at = 1002 \<rparr>]"
    by code_simp
  have c2: "(UsersJson (map jsonify_user (fl_users fl_s1)) (length (fl_users fl_s1)), 200::nat) =
       (UsersJson [[(''id'', JInt 1), (''name'', JStr ''Ann''), (''email'', JStr ''ann@example.com'')]] 1, 200)"
    by code_simp
  from get_users_listing [where skip = 1 and limit = 10 and search = "Some ''O''"
      and st = fa_s4 and fs = fl_s1] h
  have "fastapi_get_users fa_s4 1 10 (Some ''O'') =
        Inr (fst (spec_get_users
               (\<lambda>u. case Some ''O'' of None \<Rightarrow> True
                     | Some s \<Rightarrow> s = [] \<or> py_contains (py_lower s) (py_lower (fa_user_name u)))
               (fa_users fa_s4) (nat 1) (nat 10)))"
    and "flask_get_users fl_s1 = (UsersJson (map jsonify_user (fl_users fl_s1)) (length (fl_users fl_s1)), 200)"
    by blast+
  with h c1 c2 show ?thesis by (simp only: simp_thms)
qed

section \<open>What holds while identifiers are not repeated\<close>

text \<open>
  The identifier given to a new user is above every stored one as long as no stored
  identifier exceeds the length of the list, which is the case until a user is deleted.
\<close>

lemma fastapi_create_user_id_above_stored:
  assumes "\<forall>u\<in>set (fa_users st). fa_user_id u \<le> int (length (fa_users st))"
    and "fastapi_create_user st now user = (Inr new_user, st')"
  shows "\<forall>u\<in>set (fa_users st). fa_user_id u < fa_user_id new_user"
  using assms by (auto simp: fastapi_create_user_def Let_def split: if_splits)

lemma flask_create_user_id_above_stored:
  assumes "\<forall>u\<in>set (fl_users fs). fl_user_id u \<le> int (length (fl_users fs))"
    and "map_of d ''name'' = Some name" and "py_truthy name"
    and "map_of d ''email'' = Some email" and "py_truthy email"
    and "\<not> list_ex (\<lambda>u. json_eq (fl_user_email u) email) (fl_users fs)"
  shows "\<forall>u\<in>set (fl_users fs). fl_user_id u < int (length (fl_users fs)) + 1"
    and "fst (fst (flask_create_user fs (JsonObject d))) =
      UserJson [(''id'', JInt (int (length (fl_users fs)) + 1)), (''name'', name), (''email'', email)]"
  using assms(1) flask_create_user_created [OF assms(2-6)] by auto

text \<open>
  When no stored record carries the identifier that a creation assigns, the get-by-id
  for it returns the record just created.
\<close>

lemma find_append_fresh:
  "\<forall>x\<in>set xs. \<not> P x \<Longrightarrow> P y \<Longrightarrow> find P (xs @ [y]) = Some y"
  by (induction xs) auto

lemma fastapi_create_user_then_get:
  assumes "\<forall>u\<in>set (fa_users st). fa_user_id u \<noteq> int (length (fa_users st)) + 1"
    and "fastapi_create_user st now user = (Inr new_user, st')"
  shows "fastapi_get_user st' (fa_user_id new_user) = Inr new_user"
    and "fa_user_name new_user = uc_name user" and "fa_user_email new_user = uc_email user"
    and "fa_user_age new_user = uc_age user"
proof -
  from assms(2) have *: "fa_user_id new_user = int (length (fa_users st)) + 1"
      "st' = st\<lparr> fa_users := fa_users st @ [new_user] \<rparr>"
      "fa_user_name new_user = uc_name user" "fa_user_email new_user = uc_email user"
      "fa_user_age new_user = uc_age user"
    by (auto simp: fastapi_create_user_def Let_def split: if_splits)
  from assms(1) * have "find (\<lambda>u. fa_user_id u = fa_user_id new_user) (fa_users st @ [new_user]) = Some new_user"
    by (intro find_append_fresh) auto
  with * show "fastapi_get_user st' (fa_user_id new_user) = Inr new_user"
    by (simp add: fastapi_get_user_def)
  from * show "fa_user_name new_user = uc_name user" "fa_user_email new_user = uc_email user"
    "fa_user_age new_user = uc_age user"
    by simp_all
qed

lemma fastapi_create_post_then_get:
  assumes "\<forall>p\<in>set (fa_posts st). fa_post_id p \<noteq> int (length (fa_posts st)) + 1"
    and "fastapi_create_post st now user_id post = (Inr new_post, st')"
  shows "fastapi_get_post st' (fa_post_id new_post) = Inr new_post"
    and "fa_post_title new_post = pc_title post" and "fa_post_content new_post = pc_content post"
    and "fa_post_user_id new_post = pc_user_id post"
proof -
  from assms(2) have *: "fa_post_id new_post = int (length (fa_posts st)) + 1"
      "st' = st\<lparr> fa_posts := fa_posts st @ [new_post] \<rparr>"
      "fa_post_title new_post = pc_title post" "fa_post_content new_post = pc_content post"
      "fa_post_user_id new_post = pc_user_id post"
    by (auto simp: fastapi_create_post_def Let_def split: sum.splits)
  from assms(1) * have "find (\<lambda>p. fa_post_id p = fa_post_id new_post) (fa_posts st @ [new_post]) = Some new_post"
    by (intro find_append_fresh) auto
  with * show "fastapi_get_post st' (fa_post_id new_post) = Inr new_post"
    by (simp add: fastapi_get_post_def)
  from * show "fa_post_title new_post = pc_title post" "fa_post_content new_post = pc_content post"
    "fa_post_user_id new_post = pc_user_id post"
    by simp_all
qed

lemma flask_create_user_then_get:
  assumes "\<forall>u\<in>set (fl_users fs). fl_user_id u \<noteq> int (length (fl_users fs)) + 1"
    and "map_of d ''name'' = Some name" and "py_truthy name"
    and "map_of d ''email'' = Some email" and "py_truthy email"
    and "\<not> list_ex (\<lambda>u. json_eq (fl_user_email u) email) (fl_users fs)"
  shows "flask_get_user (snd (flask_create_user fs (JsonObject d))) (int (length (fl_users fs)) + 1) =
      (UserJson [(''id'', JInt (int (length (fl_users fs)) + 1)), (''name'', name), (''email'', email)], 200)"
proof -
  let ?u = "\<lparr> fl_user_id = int (length (fl_users fs)) + 1, fl_user_name = name, fl_user_email = email \<rparr>"
  from assms(1) have "find (\<lambda>u. fl_user_id u = int (length (fl_users fs)) + 1) (fl_users fs @ [?u]) = Some ?u"
    by (intro find_append_fresh) auto
  then show ?thesis
    by (simp add: flask_create_user_created [OF assms(2-6)] flask_get_user_def jsonify_user_def)
qed

text \<open>
  When the stored identifiers are pairwise distinct, a get-by-id that follows a
  successful deletion of k finds nothing.
\<close>

lemma fastapi_get_after_delete_distinct:
  assumes "distinct (map fa_user_id (fa_users st))"
    and "fastapi_delete_user st k = (Inr (), st')"
  shows "fastapi_get_user st' k = Inl (HTTPException 404 ''User not found'')"
proof -
  from fastapi_delete_user_cases [OF assms(2)] obtain pre u suf where
    *: "fa_users st = pre @ u # suf" "fa_user_id u = k" "st' = st\<lparr> fa_users := pre @ suf \<rparr>"
    by auto
  with assms(1) have "\<forall>v\<in>set (pre @ suf). fa_user_id v \<noteq> k"
    by (auto simp: image_iff)
  then have "find (\<lambda>u. fa_user_id u = k) (pre @ suf) = None"
    by (simp only: find_None_iff_no_id simp_thms)
  with * show ?thesis by (simp add: fastapi_get_user_def)
qed

lemma flask_get_after_delete_distinct:
  assumes "distinct (map fl_user_id (fl_users fs))"
    and "flask_delete_user fs k = ((b, 204), fs')"
  shows "flask_get_user fs' k = (ErrorJson ''User not found'', 404)"
proof -
  from flask_delete_user_cases [OF assms(2)] obtain pre u suf where
    *: "fl_users fs = pre @ u # suf" "fl_user_id u = k" "fs' = fs\<lparr> fl_users := pre @ suf \<rparr>"
    by auto
  with assms(1) have "\<forall>v\<in>set (pre @ suf). fl_user_id v \<noteq> k"
    by (auto simp: image_iff)
  then have "find (\<lambda>u. fl_user_id u = k) (pre @ suf) = None"
    by (simp only: find_None_iff_no_id simp_thms)
  with * show ?thesis by (simp add: flask_get_user_def)
qed

end
